theory Spec2Isabelle
  imports Main
begin

section \<open>The notebook \<open>updated_tune_pbt.ipynb\<close>\<close>

text \<open>
  The notebook defines one class, \<open>TrainableForPBT(tune.Trainable)\<close>, and a straight-line
  script that configures Ray Tune and calls \<open>Tuner.fit\<close>. Everything else (LightGBM,
  scikit-learn, json, joblib, the file system, Ray Tune) is a library. The embedding keeps
  the libraries as parameters: a record \<open>lib\<close> of the functions the class calls, over
  abstract types
  \<^item> \<open>'cfg\<close> for a hyperparameter dictionary,
  \<^item> \<open>'d\<close> for a data array,
  \<^item> \<open>'m\<close> for the state of an \<open>LGBMRegressor\<close>,
  \<^item> \<open>'f\<close> for a float,
  \<^item> \<open>'b\<close> for the contents of a file.
  The attributes of a trainable are a record, every callback takes the record and the
  world (files and a log of the library calls made) and returns both, and an exception is
  an \<open>Inl\<close> result next to the state as it was when the exception left the method.
\<close>

subsection \<open>Values, exceptions, library\<close>

datatype 'f json =
    JNull
  | JInt int
  | JFloat 'f
  | JStr string
  | JObject "(string \<times> 'f json) list"

datatype error =
    FileNotFoundError string
  | PermissionError string
  | JSONDecodeError
  | UnpicklingError
  | KeyError string
  | TypeError
  | Library_raised
  | Unmodelled_value

text \<open>
  \<open>fit\<close> is \<open>LGBMRegressor.fit(X, y, init_model=...)\<close>: it takes the receiver, the data and
  the optional \<open>init_model\<close>, and gives the fitted receiver, or \<open>None\<close> when LightGBM raises.
  \<open>cross_val_score\<close> stands for \<open>cross_val_score(estimator=, X=, y=, scoring='r2', cv=5).mean()\<close>.
  \<open>json_dumps\<close>/\<open>json_loads\<close> and \<open>joblib_pickle\<close>/\<open>joblib_unpickle\<close> turn a value into the
  contents of a file and back; reading back can fail.
\<close>

record ('cfg, 'd, 'm, 'f, 'b) lib =
  LGBMRegressor :: "'cfg \<Rightarrow> 'm"
  fit :: "'m \<Rightarrow> 'd \<Rightarrow> 'd \<Rightarrow> 'm option \<Rightarrow> 'm option"
  cross_val_score :: "'m \<Rightarrow> 'd \<Rightarrow> 'd \<Rightarrow> 'f option"
  json_dumps :: "'f json \<Rightarrow> 'b"
  json_loads :: "'b \<Rightarrow> 'f json option"
  joblib_pickle :: "'m \<Rightarrow> 'b"
  joblib_unpickle :: "'b \<Rightarrow> 'm option"

text \<open>
  The library calls a callback makes, in the order it makes them. A call is logged when it
  is made, whether it then returns or raises.
\<close>

datatype ('cfg, 'd, 'm, 'b) call =
    New_LGBMRegressor 'cfg
  | Model_fit 'm 'd 'd "'m option"
  | Cross_val_score 'm 'd 'd
  | File_write string 'b
  | File_read string
  | Joblib_dump 'm string
  | Joblib_load string

record ('cfg, 'd, 'm, 'b) world =
  files :: "string \<rightharpoonup> 'b"
  writable :: "string \<Rightarrow> bool"
  trace :: "('cfg, 'd, 'm, 'b) call list"

definition record_call ::
  "('cfg, 'd, 'm, 'b) call \<Rightarrow> ('cfg, 'd, 'm, 'b) world \<Rightarrow> ('cfg, 'd, 'm, 'b) world" where
  "record_call c w = w\<lparr>trace := trace w @ [c]\<rparr>"

text \<open>
  \<open>os.path.join(a, b)\<close> of \<open>posixpath\<close>: an absolute \<open>b\<close> replaces \<open>a\<close>; an empty \<open>a\<close> or
  one that ends in a slash takes \<open>b\<close> as it is; otherwise a slash goes between.
\<close>

definition os_path_join :: "string \<Rightarrow> string \<Rightarrow> string" where
  "os_path_join a b =
     (if take 1 b = ''/'' then b
      else if a = [] \<or> last a = CHR ''/'' then a @ b
      else a @ ''/'' @ b)"

text \<open>\<open>open(path, "w")\<close> and \<open>f.write(text)\<close>; \<open>open(path)\<close> and \<open>f.read()\<close>.\<close>

definition write_file ::
  "string \<Rightarrow> 'b \<Rightarrow> ('cfg, 'd, 'm, 'b) world \<Rightarrow> error + ('cfg, 'd, 'm, 'b) world" where
  "write_file path b w =
     (if writable w path then Inr (w\<lparr>files := (files w)(path \<mapsto> b)\<rparr>)
      else Inl (PermissionError path))"

definition read_file :: "string \<Rightarrow> ('cfg, 'd, 'm, 'b) world \<Rightarrow> error + 'b" where
  "read_file path w =
     (case files w path of None \<Rightarrow> Inl (FileNotFoundError path) | Some b \<Rightarrow> Inr b)"

text \<open>\<open>state[key]\<close> on what \<open>json.loads\<close> returned.\<close>

fun subscript :: "'f json \<Rightarrow> string \<Rightarrow> error + 'f json" where
  "subscript (JObject kvs) key =
     (case map_of kvs key of None \<Rightarrow> Inl (KeyError key) | Some v \<Rightarrow> Inr v)"
| "subscript _ key = Inl TypeError"

subsection \<open>The class \<open>TrainableForPBT\<close>\<close>

text \<open>
  The attributes, with the types \<open>setup\<close>, \<open>reset_config\<close> and \<open>step\<close> give them: the
  iteration counter is an integer, the score is \<open>None\<close> or a float.
\<close>

record ('cfg, 'd, 'm, 'f) trainable =
  current_config :: 'cfg
  x_train :: 'd
  y_train :: 'd
  model :: 'm
  current_iteration :: int
  current_step_score :: "'f option"

definition score_json :: "'f option \<Rightarrow> 'f json" where
  "score_json sc = (case sc of None \<Rightarrow> JNull | Some f \<Rightarrow> JFloat f)"

text \<open>
  Python would store any JSON value in the attributes. The record is typed, so a checkpoint
  whose \<open>current_score\<close> is neither \<open>null\<close> nor a float, or whose \<open>current_step\<close> is not an
  integer, is outside the model and is reported as \<open>Unmodelled_value\<close>; \<open>save_checkpoint\<close>
  never writes one.
\<close>

fun json_score :: "'f json \<Rightarrow> error + 'f option" where
  "json_score JNull = Inr None"
| "json_score (JFloat f) = Inr (Some f)"
| "json_score _ = Inl Unmodelled_value"

fun json_int :: "'f json \<Rightarrow> error + int" where
  "json_int (JInt n) = Inr n"
| "json_int _ = Inl Unmodelled_value"

text \<open>
  The callbacks follow. Each is the method of the same name; \<open>setup\<close> is written
  \<open>setup_method\<close>, the plain name being a command of Isabelle.
\<close>

definition setup_method ::
  "('cfg, 'd, 'm, 'f, 'b) lib \<Rightarrow> ('cfg, 'd, 'm, 'f) trainable \<Rightarrow> 'cfg \<Rightarrow> 'd \<Rightarrow> 'd \<Rightarrow>
   ('cfg, 'd, 'm, 'b) world \<Rightarrow>
   (error + unit) \<times> ('cfg, 'd, 'm, 'f) trainable \<times> ('cfg, 'd, 'm, 'b) world" where
  "setup_method L self config x y w =
     (let self = self\<lparr>current_config := config\<rparr>;
          self = self\<lparr>x_train := x\<rparr>;
          self = self\<lparr>y_train := y\<rparr>;
          w = record_call (New_LGBMRegressor (current_config self)) w;
          self = self\<lparr>model := LGBMRegressor L (current_config self)\<rparr>;
          self = self\<lparr>current_iteration := 0\<rparr>;
          self = self\<lparr>current_step_score := None\<rparr>
      in (Inr (), self, w))"

text \<open>
  \<open>self.model.fit(self.x_train, self.y_train, init_model=...)\<close>: the estimator is fitted in
  place, so the attribute holds the fitted model afterwards.
\<close>

definition model_fit ::
  "('cfg, 'd, 'm, 'f, 'b) lib \<Rightarrow> ('cfg, 'd, 'm, 'f) trainable \<Rightarrow> 'm option \<Rightarrow>
   ('cfg, 'd, 'm, 'b) world \<Rightarrow>
   (error + unit) \<times> ('cfg, 'd, 'm, 'f) trainable \<times> ('cfg, 'd, 'm, 'b) world" where
  "model_fit L self init_model w =
     (let w = record_call (Model_fit (model self) (x_train self) (y_train self) init_model) w
      in case fit L (model self) (x_train self) (y_train self) init_model of
           None \<Rightarrow> (Inl Library_raised, self, w)
         | Some m \<Rightarrow> (Inr (), self\<lparr>model := m\<rparr>, w))"

definition step ::
  "('cfg, 'd, 'm, 'f, 'b) lib \<Rightarrow> ('cfg, 'd, 'm, 'f) trainable \<Rightarrow> ('cfg, 'd, 'm, 'b) world \<Rightarrow>
   (error + (string \<times> 'f option) list) \<times> ('cfg, 'd, 'm, 'f) trainable \<times> ('cfg, 'd, 'm, 'b) world" where
  "step L self w =
     (let self = self\<lparr>current_iteration := current_iteration self + 1\<rparr>
      in case (if current_iteration self = 1 then model_fit L self None w
               else model_fit L self (Some (model self)) w) of
           (Inl e, self, w) \<Rightarrow> (Inl e, self, w)
         | (Inr _, self, w) \<Rightarrow>
             (let w = record_call (Cross_val_score (model self) (x_train self) (y_train self)) w
              in case cross_val_score L (model self) (x_train self) (y_train self) of
                   None \<Rightarrow> (Inl Library_raised, self, w)
                 | Some sc \<Rightarrow>
                     (let self = self\<lparr>current_step_score := Some sc\<rparr>;
                          results_dict = [(''r2_score'', current_step_score self)]
                      in (Inr results_dict, self, w))))"

definition save_checkpoint ::
  "('cfg, 'd, 'm, 'f, 'b) lib \<Rightarrow> ('cfg, 'd, 'm, 'f) trainable \<Rightarrow> string \<Rightarrow>
   ('cfg, 'd, 'm, 'b) world \<Rightarrow>
   (error + string) \<times> ('cfg, 'd, 'm, 'f) trainable \<times> ('cfg, 'd, 'm, 'b) world" where
  "save_checkpoint L self tmp_checkpoint_dir w =
     (let path = os_path_join tmp_checkpoint_dir ''checkpoint'';
          content = json_dumps L (JObject
                   [(''current_score'', score_json (current_step_score self)),
                    (''current_step'', JInt (current_iteration self))]);
          w = record_call (File_write path content) w
      in case write_file path content w of
           Inl e \<Rightarrow> (Inl e, self, w)
         | Inr w \<Rightarrow>
             (let path_for_model = os_path_join tmp_checkpoint_dir ''model.joblib'';
                  w = record_call (Joblib_dump (model self) path_for_model) w
              in case write_file path_for_model (joblib_pickle L (model self)) w of
                   Inl e \<Rightarrow> (Inl e, self, w)
                 | Inr w \<Rightarrow> (Inr tmp_checkpoint_dir, self, w)))"

text \<open>
  \<open>load_checkpoint\<close> assigns the attributes one by one, so an exception half way leaves
  the earlier assignments in place: the state comes back with the error.
\<close>

definition load_checkpoint ::
  "('cfg, 'd, 'm, 'f, 'b) lib \<Rightarrow> ('cfg, 'd, 'm, 'f) trainable \<Rightarrow> string \<Rightarrow>
   ('cfg, 'd, 'm, 'b) world \<Rightarrow>
   (error + unit) \<times> ('cfg, 'd, 'm, 'f) trainable \<times> ('cfg, 'd, 'm, 'b) world" where
  "load_checkpoint L self tmp_checkpoint_dir w =
     (let path = os_path_join tmp_checkpoint_dir ''checkpoint'';
          w = record_call (File_read path) w
      in case read_file path w of
           Inl e \<Rightarrow> (Inl e, self, w)
         | Inr content \<Rightarrow>
        (case json_loads L content of
           None \<Rightarrow> (Inl JSONDecodeError, self, w)
         | Some state \<Rightarrow>
        (case subscript state ''current_score'' of
           Inl e \<Rightarrow> (Inl e, self, w)
         | Inr v \<Rightarrow>
        (case json_score v of
           Inl e \<Rightarrow> (Inl e, self, w)
         | Inr sc \<Rightarrow>
        (let self = self\<lparr>current_step_score := sc\<rparr>
         in case subscript state ''current_step'' of
           Inl e \<Rightarrow> (Inl e, self, w)
         | Inr v \<Rightarrow>
        (case json_int v of
           Inl e \<Rightarrow> (Inl e, self, w)
         | Inr n \<Rightarrow>
        (let self = self\<lparr>current_iteration := n\<rparr>;
             path_for_model = os_path_join tmp_checkpoint_dir ''model.joblib'';
             w = record_call (Joblib_load path_for_model) w
         in case read_file path_for_model w of
           Inl e \<Rightarrow> (Inl e, self, w)
         | Inr b \<Rightarrow>
        (case joblib_unpickle L b of
           None \<Rightarrow> (Inl UnpicklingError, self, w)
         | Some m \<Rightarrow> (Inr (), self\<lparr>model := m\<rparr>, w)))))))))"

definition reset_config ::
  "('cfg, 'd, 'm, 'f, 'b) lib \<Rightarrow> ('cfg, 'd, 'm, 'f) trainable \<Rightarrow> 'cfg \<Rightarrow>
   ('cfg, 'd, 'm, 'b) world \<Rightarrow>
   (error + bool) \<times> ('cfg, 'd, 'm, 'f) trainable \<times> ('cfg, 'd, 'm, 'b) world" where
  "reset_config L self new_config w =
     (let self = self\<lparr>current_config := new_config\<rparr>;
          self = self\<lparr>current_iteration := 0\<rparr>;
          self = self\<lparr>current_step_score := None\<rparr>;
          w = record_call (New_LGBMRegressor (current_config self)) w;
          self = self\<lparr>model := LGBMRegressor L (current_config self)\<rparr>
      in (Inr True, self, w))"

text \<open>
  The body of the final class statement (the notebook's cell 31): the functions it defines,
  in order, each with the tag \<open>invoke\<close> dispatches on.
\<close>

datatype callback = Setup | Step | Save_checkpoint | Load_checkpoint | Reset_config

definition TrainableForPBT :: "(string \<times> callback) list" where
  "TrainableForPBT =
     [(''setup'', Setup),
      (''step'', Step),
      (''save_checkpoint'', Save_checkpoint),
      (''load_checkpoint'', Load_checkpoint),
      (''reset_config'', Reset_config)]"

definition method_names :: "(string \<times> callback) list \<Rightarrow> string list" where
  "method_names cls = map fst cls"

text \<open>
  A method of a class overrides the base class when the base class has a method of that
  name. The base class \<open>tune.Trainable\<close> is Ray's, so the names it defines are a
  parameter \<open>base\<close>.
\<close>

definition overridden :: "string list \<Rightarrow> (string \<times> callback) list \<Rightarrow> string list" where
  "overridden base cls = filter (\<lambda>name. name \<in> set base) (method_names cls)"

text \<open>
  Modelled from the spec: the class \<open>tune.Trainable\<close> is not in the repository. The spec
  names the callbacks of its plugin contract (setup, step, save_checkpoint,
  load_checkpoint, reset_config), and the prose of the notebook introduces each of the
  five as a function of the parent class to override.
\<close>

definition tune_Trainable :: "string list" where
  "tune_Trainable =
     [''setup'', ''step'', ''save_checkpoint'', ''load_checkpoint'', ''reset_config'']"

text \<open>A call of one callback with its arguments, and what a callback returns.\<close>

datatype ('cfg, 'd) invocation =
    Call_setup 'cfg 'd 'd
  | Call_step
  | Call_save_checkpoint string
  | Call_load_checkpoint string
  | Call_reset_config 'cfg

datatype 'f retval =
    Ret_None
  | Ret_dict "(string \<times> 'f option) list"
  | Ret_str string
  | Ret_bool bool

fun method_of :: "('cfg, 'd) invocation \<Rightarrow> callback" where
  "method_of (Call_setup config x y) = Setup"
| "method_of Call_step = Step"
| "method_of (Call_save_checkpoint dir) = Save_checkpoint"
| "method_of (Call_load_checkpoint dir) = Load_checkpoint"
| "method_of (Call_reset_config new_config) = Reset_config"

definition returning ::
  "('a \<Rightarrow> 'f retval) \<Rightarrow> (error + 'a) \<times> 's \<times> 'w \<Rightarrow> (error + 'f retval) \<times> 's \<times> 'w" where
  "returning conv out = (case out of (r, self, w) \<Rightarrow> (map_sum id conv r, self, w))"

fun invoke ::
  "('cfg, 'd, 'm, 'f, 'b) lib \<Rightarrow> ('cfg, 'd) invocation \<Rightarrow> ('cfg, 'd, 'm, 'f) trainable \<Rightarrow>
   ('cfg, 'd, 'm, 'b) world \<Rightarrow>
   (error + 'f retval) \<times> ('cfg, 'd, 'm, 'f) trainable \<times> ('cfg, 'd, 'm, 'b) world" where
  "invoke L (Call_setup config x y) self w =
     returning (\<lambda>u. Ret_None) (setup_method L self config x y w)"
| "invoke L Call_step self w = returning Ret_dict (step L self w)"
| "invoke L (Call_save_checkpoint dir) self w = returning Ret_str (save_checkpoint L self dir w)"
| "invoke L (Call_load_checkpoint dir) self w =
     returning (\<lambda>u. Ret_None) (load_checkpoint L self dir w)"
| "invoke L (Call_reset_config new_config) self w =
     returning Ret_bool (reset_config L self new_config w)"

text \<open>
  The library calls one invocation adds to the log, and what kind they are: \<open>calls_fit\<close>
  says that \<open>fit\<close> was called on the model, \<open>calls_file_io\<close> that a file was opened
  for reading or writing, directly or through joblib.
\<close>

definition calls_made ::
  "('cfg, 'd, 'm, 'f, 'b) lib \<Rightarrow> ('cfg, 'd) invocation \<Rightarrow> ('cfg, 'd, 'm, 'f) trainable \<Rightarrow>
   ('cfg, 'd, 'm, 'b) world \<Rightarrow> ('cfg, 'd, 'm, 'b) call list" where
  "calls_made L c self w = drop (length (trace w)) (trace (snd (snd (invoke L c self w))))"

fun is_fit :: "('cfg, 'd, 'm, 'b) call \<Rightarrow> bool" where
  "is_fit (Model_fit m x y init_model) = True"
| "is_fit _ = False"

fun is_file_io :: "('cfg, 'd, 'm, 'b) call \<Rightarrow> bool" where
  "is_file_io (File_write path b) = True"
| "is_file_io (File_read path) = True"
| "is_file_io (Joblib_dump m path) = True"
| "is_file_io (Joblib_load path) = True"
| "is_file_io _ = False"

definition calls_fit :: "('cfg, 'd, 'm, 'b) call list \<Rightarrow> bool" where
  "calls_fit cs = list_ex is_fit cs"

definition calls_file_io :: "('cfg, 'd, 'm, 'b) call list \<Rightarrow> bool" where
  "calls_file_io cs = list_ex is_file_io cs"

subsection \<open>A small instance of the library\<close>

text \<open>
  An instance on which the callbacks can be run: a model is the list of the data it was
  fitted on, its score is the length of that list, and a file holds the value that was
  serialised into it.
\<close>

definition example_lib :: "(nat, nat list, nat list, int, int json + nat list) lib" where
  "example_lib =
     \<lparr>LGBMRegressor = (\<lambda>config. []),
      fit = (\<lambda>m x y init_model. Some ((case init_model of None \<Rightarrow> [] | Some i \<Rightarrow> i) @ x)),
      cross_val_score = (\<lambda>m x y. Some (int (length m))),
      json_dumps = Inl,
      json_loads = (\<lambda>b. case b of Inl v \<Rightarrow> Some v | Inr m \<Rightarrow> None),
      joblib_pickle = Inr,
      joblib_unpickle = (\<lambda>b. case b of Inl v \<Rightarrow> None | Inr m \<Rightarrow> Some m)\<rparr>"

definition example_world :: "(nat, nat list, nat list, int json + nat list) world" where
  "example_world = \<lparr>files = Map.empty, writable = (\<lambda>path. True), trace = []\<rparr>"

definition example_trainable :: "(nat, nat list, nat list, int) trainable" where
  "example_trainable =
     \<lparr>current_config = 31, x_train = [1, 2], y_train = [3, 4], model = [1, 2, 1, 2],
      current_iteration = 2, current_step_score = Some 4\<rparr>"

section \<open>The top-level script\<close>

text \<open>
  The cells of the notebook run top to bottom. Each cell takes the log of what has been
  done so far and returns it extended, together with the names it binds that later cells
  read. What a library call returns is unknown here: it is a new object, named by the
  position of the call in the log (\<open>PResult\<close>), and attribute reads and subscripts of
  such objects stay as they are written.
\<close>

datatype pyval =
    PNone
  | PBool bool
  | PInt int
  | PFloat string
  | PStr string
  | PDict "(string \<times> pyval) list"
  | PName string
  | PClass string "string list" "string list"
  | PResult nat
  | PAttr pyval string
  | PItem pyval pyval
  | PFormat "pyval list"

datatype action =
    Shell string
  | Import_module string
  | Import_from string "string list"
  | Class_def string "string list" "string list"
  | Function_def string
  | Call pyval "pyval list" "(string \<times> pyval) list"
  | Print pyval

definition call_lib ::
  "pyval \<Rightarrow> pyval list \<Rightarrow> (string \<times> pyval) list \<Rightarrow> action list \<Rightarrow> pyval \<times> action list" where
  "call_lib f args kwargs t = (PResult (length t), t @ [Call f args kwargs])"

definition class_statement ::
  "string \<Rightarrow> string list \<Rightarrow> string list \<Rightarrow> action list \<Rightarrow> pyval \<times> action list" where
  "class_statement name bases methods t =
     (PClass name bases methods, t @ [Class_def name bases methods])"

text \<open>\<open>d[key]\<close>: a dict display is looked up, anything else stays a subscript.\<close>

definition getitem :: "pyval \<Rightarrow> string \<Rightarrow> pyval" where
  "getitem d key =
     (case d of
        PDict kvs \<Rightarrow> (case map_of kvs key of Some v \<Rightarrow> v | None \<Rightarrow> PItem d (PStr key))
      | _ \<Rightarrow> PItem d (PStr key))"

definition cell_12 :: "action list \<Rightarrow> action list" where
  "cell_12 t = t @ [Import_module ''sys'', Shell ''{sys.executable} -m pip install ray==2.1.0'']"

definition cell_13 :: "action list \<Rightarrow> action list" where
  "cell_13 t = t @
     [Import_module ''json'',
      Import_module ''os'',
      Import_from ''joblib'' [''dump'', ''load''],
      Import_from ''lightgbm'' [''LGBMRegressor''],
      Import_from ''ray'' [''tune''],
      Import_from ''ray.air.config'' [''CheckpointConfig''],
      Import_from ''ray.air.config'' [''RunConfig''],
      Import_from ''ray.tune.schedulers'' [''PopulationBasedTraining''],
      Import_from ''ray.tune.tune_config'' [''TuneConfig''],
      Import_from ''ray.tune.tuner'' [''Tuner''],
      Import_from ''sklearn.datasets'' [''load_boston''],
      Import_from ''sklearn.model_selection'' [''cross_val_score''],
      Import_from ''sklearn.model_selection'' [''train_test_split'']]"

text \<open>Cell 15 is the first, empty version of the class; cells 18 to 29 define the five
  functions at module level; cell 31 is the class the script goes on to use.\<close>

definition cell_15 :: "action list \<Rightarrow> pyval \<times> action list" where
  "cell_15 t = class_statement ''TrainableForPBT'' [''tune.Trainable''] [''setup'', ''step''] t"

definition cell_18 :: "action list \<Rightarrow> action list" where
  "cell_18 t = t @ [Function_def ''setup'']"

definition cell_20 :: "action list \<Rightarrow> action list" where
  "cell_20 t = t @ [Function_def ''step'']"

definition cell_23 :: "action list \<Rightarrow> action list" where
  "cell_23 t = t @ [Function_def ''save_checkpoint'']"

definition cell_25 :: "action list \<Rightarrow> action list" where
  "cell_25 t = t @ [Function_def ''load_checkpoint'']"

definition cell_29 :: "action list \<Rightarrow> action list" where
  "cell_29 t = t @ [Function_def ''reset_config'']"

definition cell_31 :: "action list \<Rightarrow> pyval \<times> action list" where
  "cell_31 t =
     class_statement ''TrainableForPBT'' [''tune.Trainable''] (method_names TrainableForPBT) t"

definition cell_35 :: "action list \<Rightarrow> pyval \<times> action list" where
  "cell_35 t =
     (let (learning_rate, t) =
            call_lib (PAttr (PName ''tune'') ''loguniform'') [PFloat ''1e-5'', PFloat ''1e-1''] [] t;
          (num_leaves, t) = call_lib (PAttr (PName ''tune'') ''randint'') [PInt 5, PInt 100] [] t;
          (max_depth, t) = call_lib (PAttr (PName ''tune'') ''randint'') [PInt 1, PInt 9] [] t;
          param_space =
            PDict [(''params'',
              PDict [(''learning_rate'', learning_rate),
                     (''num_leaves'', num_leaves),
                     (''max_depth'', max_depth)])]
      in (param_space, t))"

definition cell_38 :: "pyval \<Rightarrow> action list \<Rightarrow> pyval \<times> action list" where
  "cell_38 param_space t =
     call_lib (PName ''PopulationBasedTraining'') []
       [(''time_attr'', PStr ''training_iteration''),
        (''perturbation_interval'', PInt 4),
        (''burn_in_period'', PInt 10),
        (''hyperparam_mutations'', getitem param_space ''params'')] t"

definition cell_40 :: "pyval \<Rightarrow> action list \<Rightarrow> pyval \<times> action list" where
  "cell_40 pbt t =
     call_lib (PName ''TuneConfig'') []
       [(''metric'', PStr ''r2_score''),
        (''mode'', PStr ''max''),
        (''search_alg'', PNone),
        (''scheduler'', pbt),
        (''num_samples'', PInt 15),
        (''reuse_actors'', PBool True)] t"

definition cell_42 :: "action list \<Rightarrow> pyval \<times> action list" where
  "cell_42 t =
     call_lib (PName ''CheckpointConfig'') []
       [(''checkpoint_score_attribute'', PStr ''r2_score''),
        (''checkpoint_score_order'', PStr ''max''),
        (''checkpoint_frequency'', PInt 4),
        (''checkpoint_at_end'', PBool True)] t"

definition cell_44 :: "pyval \<Rightarrow> action list \<Rightarrow> pyval \<times> action list" where
  "cell_44 checkpoint_config t =
     call_lib (PName ''RunConfig'') []
       [(''name'', PStr ''pbt_experiment''),
        (''local_dir'', PStr ''/Users/admin/Desktop/Dressler/Publications''),
        (''stop'', PDict [(''training_iteration'', PInt 30)]),
        (''checkpoint_config'', checkpoint_config)] t"

definition cell_46 :: "action list \<Rightarrow> (pyval \<times> pyval) \<times> action list" where
  "cell_46 t =
     (let (r, t) = call_lib (PName ''load_boston'') [] [(''return_X_y'', PBool True)] t;
          X = PItem r (PInt 0);
          y = PItem r (PInt 1);
          (r, t) = call_lib (PName ''train_test_split'') [X, y]
                     [(''test_size'', PFloat ''0.2''), (''random_state'', PInt 42)] t;
          x_train = PItem r (PInt 0);
          x_test = PItem r (PInt 1);
          y_train = PItem r (PInt 2);
          y_test = PItem r (PInt 3)
      in ((x_train, y_train), t))"

definition cell_47 :: "pyval \<Rightarrow> pyval \<Rightarrow> pyval \<Rightarrow> action list \<Rightarrow> pyval \<times> action list" where
  "cell_47 cls x_train' y_train' t =
     call_lib (PAttr (PName ''tune'') ''with_parameters'') [cls]
       [(''x_train'', x_train'), (''y_train'', y_train')] t"

definition cell_48 ::
  "pyval \<Rightarrow> pyval \<Rightarrow> pyval \<Rightarrow> pyval \<Rightarrow> action list \<Rightarrow> pyval \<times> action list" where
  "cell_48 trainable_with_parameters param_space tune_config run_config t =
     (let (tuner, t) =
            call_lib (PName ''Tuner'') [trainable_with_parameters]
              [(''param_space'', getitem param_space ''params''),
               (''tune_config'', tune_config),
               (''run_config'', run_config)] t;
          (analysis, t) = call_lib (PAttr tuner ''fit'') [] [] t
      in (analysis, t))"

definition cell_50 :: "pyval \<Rightarrow> action list \<Rightarrow> action list" where
  "cell_50 analysis t =
     (let best_trial_id =
            PAttr (PAttr (PAttr analysis ''_experiment_analysis'') ''best_trial'') ''trial_id'';
          (best_result, t) = call_lib (PAttr analysis ''get_best_result'') [] [] t;
          best_result_score = PItem (PAttr best_result ''metrics'') (PStr ''r2_score'');
          best_config = PAttr best_result ''config'';
          best_checkpoint = PAttr best_result ''checkpoint'';
          (best_checkpoint_dir, t) =
            call_lib (PAttr (PAttr best_result ''checkpoint'') ''as_directory'') [] [] t;
          t = t @ [Print (PFormat [PStr ''BEST TRIAL ID: '', best_trial_id])];
          t = t @ [Print (PFormat [PStr ''BEST RESULT SCORE: '', best_result_score])];
          t = t @ [Print (PFormat [PStr ''BEST CHECKPOINT DIRECTORY: '', best_checkpoint])]
      in t)"

definition notebook :: "action list" where
  "notebook =
     (let t = cell_12 [];
          t = cell_13 t;
          (cls, t) = cell_15 t;
          t = cell_18 t;
          t = cell_20 t;
          t = cell_23 t;
          t = cell_25 t;
          t = cell_29 t;
          (cls, t) = cell_31 t;
          (param_space, t) = cell_35 t;
          (pbt, t) = cell_38 param_space t;
          (tune_config, t) = cell_40 pbt t;
          (checkpoint_config, t) = cell_42 t;
          (run_config, t) = cell_44 checkpoint_config t;
          ((x_train', y_train'), t) = cell_46 t;
          (trainable_with_parameters, t) = cell_47 cls x_train' y_train' t;
          (analysis, t) = cell_48 trainable_with_parameters param_space tune_config run_config t
      in cell_50 analysis t)"

text \<open>What the actions are: a call of a given library name, a call of \<open>fit\<close> on an object
  that a call of \<open>Tuner\<close> in the log \<open>t\<close> returned, the class statement of a given class,
  a \<open>print\<close>.\<close>

definition calls :: "pyval \<Rightarrow> action \<Rightarrow> bool" where
  "calls f a = (case a of Call g args kwargs \<Rightarrow> g = f | _ \<Rightarrow> False)"

definition is_tuner_fit :: "action list \<Rightarrow> action \<Rightarrow> bool" where
  "is_tuner_fit t a =
     (case a of
        Call (PAttr (PResult n) attr) args kwargs \<Rightarrow>
          attr = ''fit'' \<and> n < length t \<and> calls (PName ''Tuner'') (t ! n)
      | _ \<Rightarrow> False)"

definition defines_class :: "string \<Rightarrow> action \<Rightarrow> bool" where
  "defines_class name a = (case a of Class_def n bases methods \<Rightarrow> n = name | _ \<Rightarrow> False)"

definition is_print :: "action \<Rightarrow> bool" where
  "is_print a = (case a of Print v \<Rightarrow> True | _ \<Rightarrow> False)"

definition is_call :: "action \<Rightarrow> bool" where
  "is_call a = (case a of Call f args kwargs \<Rightarrow> True | _ \<Rightarrow> False)"

definition before_fit :: "action list \<Rightarrow> action list" where
  "before_fit t = takeWhile (\<lambda>a. \<not> is_tuner_fit t a) t"

definition after_fit :: "action list \<Rightarrow> action list" where
  "after_fit t = drop 1 (dropWhile (\<lambda>a. \<not> is_tuner_fit t a) t)"

section \<open>Properties of the callbacks\<close>

subsection \<open>Auxiliary facts\<close>

lemma checkpoint_paths_differ:
  "os_path_join dir ''checkpoint'' \<noteq> os_path_join dir ''model.joblib''"
  by (auto simp: os_path_join_def)

lemmas example_defs = example_lib_def example_world_def example_trainable_def

subsection \<open>The callbacks the class defines\<close>

lemma callback_UNIV:
  "(UNIV :: callback set) = {Setup, Step, Save_checkpoint, Load_checkpoint, Reset_config}"
proof -
  have "c \<in> {Setup, Step, Save_checkpoint, Load_checkpoint, Reset_config}" for c :: callback
    by (cases c) simp_all
  then show ?thesis by blast
qed

text \<open>
  C2, as amended: the methods of \<open>TrainableForPBT\<close> that override the base class are
  exactly \<open>setup\<close>, \<open>step\<close>, \<open>save_checkpoint\<close>, \<open>load_checkpoint\<close> and \<open>reset_config\<close>,
  and they are five, whenever the base class has methods of these five names. The class
  defines nothing else, no name twice, and the five names stand for five different
  callbacks, which are all the callbacks \<open>invoke\<close> can run.
\<close>

theorem trainable_overrides_five_callbacks:
  assumes "set [''setup'', ''step'', ''save_checkpoint'', ''load_checkpoint'', ''reset_config'']
             \<subseteq> set base"
  shows "set (overridden base TrainableForPBT) =
           {''setup'', ''step'', ''save_checkpoint'', ''load_checkpoint'', ''reset_config''} \<and>
         card (set (overridden base TrainableForPBT)) = 5 \<and>
         overridden base TrainableForPBT = method_names TrainableForPBT \<and>
         distinct (method_names TrainableForPBT) \<and>
         distinct (map snd TrainableForPBT) \<and>
         set (map snd TrainableForPBT) = UNIV"
proof -
  have all: "overridden base TrainableForPBT = method_names TrainableForPBT"
    using assms by (simp add: overridden_def method_names_def TrainableForPBT_def)
  have names: "method_names TrainableForPBT =
      [''setup'', ''step'', ''save_checkpoint'', ''load_checkpoint'', ''reset_config'']"
    by (simp add: method_names_def TrainableForPBT_def)
  have d: "distinct (method_names TrainableForPBT)"
    unfolding names by simp
  have "card (set (method_names TrainableForPBT)) = 5"
    using distinct_card [OF d] by (simp add: names)
  moreover have "set (method_names TrainableForPBT) =
      {''setup'', ''step'', ''save_checkpoint'', ''load_checkpoint'', ''reset_config''}"
    unfolding names by simp
  moreover have "distinct (map snd TrainableForPBT)"
    by (simp add: TrainableForPBT_def)
  moreover have "set (map snd TrainableForPBT) = UNIV"
    unfolding callback_UNIV by (simp add: TrainableForPBT_def)
  ultimately show ?thesis
    using all d by simp
qed

theorem trainable_overrides_five_callbacks_witness:
  "set [''setup'', ''step'', ''save_checkpoint'', ''load_checkpoint'', ''reset_config'']
     \<subseteq> set tune_Trainable \<and>
   overridden tune_Trainable TrainableForPBT =
     [''setup'', ''step'', ''save_checkpoint'', ''load_checkpoint'', ''reset_config''] \<and>
   card (set (overridden tune_Trainable TrainableForPBT)) = 5"
proof -
  have h: "set [''setup'', ''step'', ''save_checkpoint'', ''load_checkpoint'', ''reset_config'']
      \<subseteq> set tune_Trainable"
    by (simp add: tune_Trainable_def)
  show ?thesis
    using h trainable_overrides_five_callbacks [OF h]
    by (simp add: method_names_def TrainableForPBT_def)
qed

text \<open>
  C2 as stated asks for these five names and for a set of size four. The class has the
  five names, so the size is not four.
\<close>

theorem four_callbacks_counterexample:
  "set (overridden tune_Trainable TrainableForPBT) =
     {''setup'', ''step'', ''save_checkpoint'', ''load_checkpoint'', ''reset_config''} \<and>
   card (set (overridden tune_Trainable TrainableForPBT)) \<noteq> 4"
proof -
  have names: "overridden tune_Trainable TrainableForPBT =
      [''setup'', ''step'', ''save_checkpoint'', ''load_checkpoint'', ''reset_config'']"
    by (simp add: overridden_def method_names_def TrainableForPBT_def tune_Trainable_def)
  have "distinct (overridden tune_Trainable TrainableForPBT)"
    unfolding names by simp
  from distinct_card [OF this] have "card (set (overridden tune_Trainable TrainableForPBT)) = 5"
    by (simp add: names)
  then show ?thesis
    by (simp add: names)
qed

subsection \<open>What each callback does\<close>

lemma json_score_inverse: "json_score v = Inr sc \<Longrightarrow> v = score_json sc"
  by (cases v) (auto simp: score_json_def)

lemma json_int_inverse: "json_int v = Inr n \<Longrightarrow> v = JInt n"
  by (cases v) auto

lemma setup_method_effect:
  "setup_method L self config x y w =
     (Inr (),
      self\<lparr>current_config := config, x_train := x, y_train := y,
           model := LGBMRegressor L config, current_iteration := 0,
           current_step_score := None\<rparr>,
      w\<lparr>trace := trace w @ [New_LGBMRegressor config]\<rparr>)"
  by (simp add: setup_method_def record_call_def Let_def)

lemma reset_config_effect:
  "reset_config L self new_config w =
     (Inr True,
      self\<lparr>current_config := new_config, current_iteration := 0,
           current_step_score := None, model := LGBMRegressor L new_config\<rparr>,
      w\<lparr>trace := trace w @ [New_LGBMRegressor new_config]\<rparr>)"
  by (simp add: reset_config_def record_call_def Let_def)

lemma step_files: "files (snd (snd (step L self w))) = files w"
  by (simp add: step_def model_fit_def record_call_def Let_def split: option.splits)

lemma step_fits_once:
  "filter is_fit (drop (length (trace w)) (trace (snd (snd (step L self w))))) =
     [Model_fit (model self) (x_train self) (y_train self)
        (if current_iteration self + 1 = 1 then None else Some (model self))]"
  by (simp add: step_def model_fit_def record_call_def Let_def split: option.splits)

lemma step_calls_fit:
  "list_ex is_fit (drop (length (trace w)) (trace (snd (snd (step L self w)))))"
  by (simp add: step_def model_fit_def record_call_def Let_def split: option.splits)

lemma step_no_file_io:
  "\<not> list_ex is_file_io (drop (length (trace w)) (trace (snd (snd (step L self w)))))"
  by (simp add: step_def model_fit_def record_call_def Let_def split: option.splits)

lemma save_checkpoint_effect:
  "save_checkpoint L self dir w =
     (let path = os_path_join dir ''checkpoint'';
          path_for_model = os_path_join dir ''model.joblib'';
          content = json_dumps L (JObject
                      [(''current_score'', score_json (current_step_score self)),
                       (''current_step'', JInt (current_iteration self))])
      in if \<not> writable w path then
           (Inl (PermissionError path), self,
            w\<lparr>trace := trace w @ [File_write path content]\<rparr>)
         else if \<not> writable w path_for_model then
           (Inl (PermissionError path_for_model), self,
            w\<lparr>files := (files w)(path \<mapsto> content),
              trace := trace w @ [File_write path content,
                                  Joblib_dump (model self) path_for_model]\<rparr>)
         else
           (Inr dir, self,
            w\<lparr>files := (files w)(path \<mapsto> content,
                                   path_for_model \<mapsto> joblib_pickle L (model self)),
              trace := trace w @ [File_write path content,
                                  Joblib_dump (model self) path_for_model]\<rparr>))"
  by (simp add: save_checkpoint_def write_file_def record_call_def Let_def)

lemma load_checkpoint_files: "files (snd (snd (load_checkpoint L self dir w))) = files w"
  by (simp add: load_checkpoint_def read_file_def record_call_def Let_def
      split: option.splits sum.splits)

lemma load_checkpoint_calls:
  "\<not> list_ex is_fit (drop (length (trace w)) (trace (snd (snd (load_checkpoint L self dir w))))) \<and>
   list_ex is_file_io (drop (length (trace w)) (trace (snd (snd (load_checkpoint L self dir w)))))"
  by (simp add: load_checkpoint_def read_file_def record_call_def Let_def
      split: option.splits sum.splits)

lemma load_checkpoint_returns:
  assumes "load_checkpoint L self dir w = (Inr u, self', w')"
  shows "\<exists>content state b.
           files w (os_path_join dir ''checkpoint'') = Some content \<and>
           json_loads L content = Some state \<and>
           subscript state ''current_score'' = Inr (score_json (current_step_score self')) \<and>
           subscript state ''current_step'' = Inr (JInt (current_iteration self')) \<and>
           files w (os_path_join dir ''model.joblib'') = Some b \<and>
           joblib_unpickle L b = Some (model self') \<and>
           trace w' = trace w @ [File_read (os_path_join dir ''checkpoint''),
                                 Joblib_load (os_path_join dir ''model.joblib'')]"
  using assms
  by (auto simp: load_checkpoint_def read_file_def record_call_def Let_def
      split: option.splits sum.splits dest!: json_score_inverse json_int_inverse)

text \<open>
  C3, as amended. Of the callbacks, only \<open>step\<close> calls \<open>fit\<close> on the model, once in every
  invocation, and only \<open>save_checkpoint\<close> and \<open>load_checkpoint\<close> open files; no callback
  does both.
  \<^item> \<open>setup\<close> and \<open>reset_config\<close> make one library call, the constructor
    \<open>LGBMRegressor(**config)\<close>. They store the configuration (\<open>setup\<close> also the data) and
    the new, unfitted model, set \<open>current_iteration\<close> to 0 and \<open>current_step_score\<close> to
    \<open>None\<close>, and change no file.
  \<^item> \<open>step\<close> changes no file.
  \<^item> \<open>save_checkpoint\<close> leaves the trainable as it is. It writes the JSON text to
    \<open>checkpoint\<close> and the pickled model to \<open>model.joblib\<close> under the directory and
    returns the directory; when one of the two cannot be written it raises, with the
    files written so far in place.
  \<^item> \<open>load_checkpoint\<close> changes no file. When it returns, both files were there, and the
    attributes hold what they decode to.
\<close>

theorem callbacks_fit_or_file_io:
  "(case invoke L c self w of
      (r, self', w') \<Rightarrow>
        calls_fit (calls_made L c self w) = (method_of c = Step) \<and>
        calls_file_io (calls_made L c self w) =
          (method_of c = Save_checkpoint \<or> method_of c = Load_checkpoint) \<and>
        (case c of
           Call_setup config x y \<Rightarrow>
             r = Inr Ret_None \<and>
             calls_made L c self w = [New_LGBMRegressor config] \<and>
             files w' = files w \<and>
             self' = self\<lparr>current_config := config, x_train := x, y_train := y,
                          model := LGBMRegressor L config, current_iteration := 0,
                          current_step_score := None\<rparr>
         | Call_step \<Rightarrow>
             files w' = files w \<and>
             length (filter is_fit (calls_made L c self w)) = 1
         | Call_save_checkpoint dir \<Rightarrow>
             self' = self \<and>
             (let path = os_path_join dir ''checkpoint'';
                  path_for_model = os_path_join dir ''model.joblib'';
                  content = json_dumps L (JObject
                              [(''current_score'', score_json (current_step_score self)),
                               (''current_step'', JInt (current_iteration self))])
              in if \<not> writable w path then
                   r = Inl (PermissionError path) \<and> files w' = files w
                 else if \<not> writable w path_for_model then
                   r = Inl (PermissionError path_for_model) \<and>
                   files w' = (files w)(path \<mapsto> content)
                 else
                   r = Inr (Ret_str dir) \<and>
                   files w' = (files w)(path \<mapsto> content,
                                        path_for_model \<mapsto> joblib_pickle L (model self)))
         | Call_load_checkpoint dir \<Rightarrow>
             files w' = files w \<and>
             (case r of
                Inl e \<Rightarrow> True
              | Inr v \<Rightarrow>
                  v = Ret_None \<and>
                  (\<exists>content state b.
                     files w (os_path_join dir ''checkpoint'') = Some content \<and>
                     json_loads L content = Some state \<and>
                     subscript state ''current_score'' =
                       Inr (score_json (current_step_score self')) \<and>
                     subscript state ''current_step'' = Inr (JInt (current_iteration self')) \<and>
                     files w (os_path_join dir ''model.joblib'') = Some b \<and>
                     joblib_unpickle L b = Some (model self') \<and>
                     calls_made L c self w =
                       [File_read (os_path_join dir ''checkpoint''),
                        Joblib_load (os_path_join dir ''model.joblib'')]))
         | Call_reset_config new_config \<Rightarrow>
             r = Inr (Ret_bool True) \<and>
             calls_made L c self w = [New_LGBMRegressor new_config] \<and>
             files w' = files w \<and>
             self' = self\<lparr>current_config := new_config, current_iteration := 0,
                          current_step_score := None,
                          model := LGBMRegressor L new_config\<rparr>))"
proof (cases c)
  case (Call_setup config x y)
  then show ?thesis
    by (simp add: calls_fit_def calls_file_io_def calls_made_def returning_def
        setup_method_effect)
next
  case Call_step
  obtain r self' w' where s: "step L self w = (r, self', w')"
    by (cases "step L self w") auto
  from step_files [of L self w] step_fits_once [of w L self] step_calls_fit [of w L self]
    step_no_file_io [of w L self]
  show ?thesis
    using Call_step s
    by (simp add: calls_fit_def calls_file_io_def calls_made_def returning_def)
next
  case (Call_save_checkpoint dir)
  then show ?thesis
    by (simp add: calls_fit_def calls_file_io_def calls_made_def returning_def
        save_checkpoint_effect Let_def)
next
  case (Call_load_checkpoint dir)
  obtain r self' w' where l: "load_checkpoint L self dir w = (r, self', w')"
    by (cases "load_checkpoint L self dir w") auto
  have ret: "\<exists>content state b.
           files w (os_path_join dir ''checkpoint'') = Some content \<and>
           json_loads L content = Some state \<and>
           subscript state ''current_score'' = Inr (score_json (current_step_score self')) \<and>
           subscript state ''current_step'' = Inr (JInt (current_iteration self')) \<and>
           files w (os_path_join dir ''model.joblib'') = Some b \<and>
           joblib_unpickle L b = Some (model self') \<and>
           trace w' = trace w @ [File_read (os_path_join dir ''checkpoint''),
                                 Joblib_load (os_path_join dir ''model.joblib'')]"
    if "r = Inr u" for u
    using load_checkpoint_returns [of L self dir w u self' w'] l that by simp
  note facts = load_checkpoint_files [of L self dir w] load_checkpoint_calls [of w L self dir]
  show ?thesis
  proof (cases r)
    case (Inl e)
    with facts Call_load_checkpoint l show ?thesis
      by (simp add: calls_fit_def calls_file_io_def calls_made_def returning_def)
  next
    case (Inr u)
    from ret [OF Inr] facts Call_load_checkpoint l Inr show ?thesis
      by (auto simp: calls_fit_def calls_file_io_def calls_made_def returning_def)
  qed
next
  case (Call_reset_config new_config)
  then show ?thesis
    by (simp add: calls_fit_def calls_file_io_def calls_made_def returning_def
        reset_config_effect)
qed

theorem callbacks_fit_or_file_io_witness:
  "(case invoke example_lib (Call_save_checkpoint ''/tmp/ckpt'') example_trainable
           example_world of
      (r, self', w') \<Rightarrow>
        r = Inr (Ret_str ''/tmp/ckpt'') \<and> self' = example_trainable \<and>
        \<not> calls_fit (calls_made example_lib (Call_save_checkpoint ''/tmp/ckpt'')
                       example_trainable example_world) \<and>
        calls_file_io (calls_made example_lib (Call_save_checkpoint ''/tmp/ckpt'')
                         example_trainable example_world) \<and>
        files w' ''/tmp/ckpt/checkpoint'' =
          Some (Inl (JObject [(''current_score'', JFloat 4), (''current_step'', JInt 2)])) \<and>
        files w' ''/tmp/ckpt/model.joblib'' = Some (Inr [1, 2, 1, 2]))"
  using callbacks_fit_or_file_io [where L = example_lib
      and c = "Call_save_checkpoint ''/tmp/ckpt''" and self = example_trainable
      and w = example_world]
  by (simp add: returning_def save_checkpoint_effect Let_def os_path_join_def score_json_def
      example_defs)

text \<open>
  C3 as stated says every invocation of every callback both fits the model and does file
  I/O. A call of \<open>setup\<close> only builds a new \<open>LGBMRegressor\<close>.
\<close>

theorem setup_fits_and_file_io_counterexample:
  "\<not> (calls_fit
        (calls_made example_lib (Call_setup 31 [1, 2] [3, 4]) example_trainable example_world) \<and>
      calls_file_io
        (calls_made example_lib (Call_setup 31 [1, 2] [3, 4]) example_trainable example_world))"
  by (simp add: calls_fit_def calls_made_def returning_def setup_method_def
      record_call_def Let_def example_defs)

subsection \<open>Saving and loading a checkpoint\<close>

text \<open>
  C4: when \<open>json.loads\<close> reads back what \<open>json.dumps\<close> wrote, \<open>joblib.load\<close> reads back
  what \<open>joblib.dump\<close> wrote, and the two files of the checkpoint can be written, then
  \<open>save_checkpoint\<close> returns its argument and leaves the trainable as it is, and a
  \<open>load_checkpoint\<close> of the same directory afterwards, on a trainable in any state,
  succeeds and sets \<open>current_step_score\<close>, \<open>current_iteration\<close> and \<open>model\<close> to the
  values they had when the checkpoint was saved.
\<close>

theorem save_then_load_restores:
  assumes json: "\<And>v. json_loads L (json_dumps L v) = Some v"
    and pickle: "\<And>m. joblib_unpickle L (joblib_pickle L m) = Some m"
    and w1: "writable w (os_path_join dir ''checkpoint'')"
    and w2: "writable w (os_path_join dir ''model.joblib'')"
  shows "\<exists>w1. save_checkpoint L self dir w = (Inr dir, self, w1) \<and>
           (\<forall>other. \<exists>self' w2.
              load_checkpoint L other dir w1 = (Inr (), self', w2) \<and>
              current_step_score self' = current_step_score self \<and>
              current_iteration self' = current_iteration self \<and>
              model self' = model self)"
  using assms checkpoint_paths_differ [of dir]
  by (simp add: save_checkpoint_def load_checkpoint_def Let_def write_file_def read_file_def
      record_call_def score_json_def split: option.splits)

theorem save_then_load_restores_witness:
  "\<exists>w1. save_checkpoint example_lib example_trainable ''/tmp/ckpt'' example_world =
           (Inr ''/tmp/ckpt'', example_trainable, w1) \<and>
         (\<exists>self' w2.
            load_checkpoint example_lib
              (example_trainable\<lparr>current_step_score := None, current_iteration := 0, model := []\<rparr>)
              ''/tmp/ckpt'' w1 = (Inr (), self', w2) \<and>
            current_step_score self' = Some 4 \<and>
            current_iteration self' = 2 \<and>
            model self' = [1, 2, 1, 2])"
proof -
  have json: "\<And>v. json_loads example_lib (json_dumps example_lib v) = Some v"
    by (simp add: example_lib_def)
  have pickle: "\<And>m. joblib_unpickle example_lib (joblib_pickle example_lib m) = Some m"
    by (simp add: example_lib_def)
  have w1: "writable example_world (os_path_join ''/tmp/ckpt'' ''checkpoint'')"
    and w2: "writable example_world (os_path_join ''/tmp/ckpt'' ''model.joblib'')"
    by (simp_all add: example_world_def)
  from save_then_load_restores [where L = example_lib and w = example_world
      and dir = "''/tmp/ckpt''" and self = example_trainable, OF json pickle w1 w2]
  obtain w1 where saved:
    "save_checkpoint example_lib example_trainable ''/tmp/ckpt'' example_world =
       (Inr ''/tmp/ckpt'', example_trainable, w1)"
    and loaded: "\<And>other. \<exists>self' w2.
       load_checkpoint example_lib other ''/tmp/ckpt'' w1 = (Inr (), self', w2) \<and>
       current_step_score self' = current_step_score example_trainable \<and>
       current_iteration self' = current_iteration example_trainable \<and>
       model self' = model example_trainable"
    by blast
  from loaded [of "example_trainable\<lparr>current_step_score := None, current_iteration := 0,
      model := []\<rparr>"]
  have "\<exists>self' w2.
          load_checkpoint example_lib
            (example_trainable\<lparr>current_step_score := None, current_iteration := 0, model := []\<rparr>)
            ''/tmp/ckpt'' w1 = (Inr (), self', w2) \<and>
          current_step_score self' = Some 4 \<and>
          current_iteration self' = 2 \<and>
          model self' = [1, 2, 1, 2]"
    by (simp add: example_trainable_def)
  with saved show ?thesis by blast
qed

text \<open>
  C5: whatever the state, the directory and the files, and whether it returns or raises,
  \<open>load_checkpoint\<close> leaves \<open>current_config\<close>, \<open>x_train\<close> and \<open>y_train\<close> as they were:
  the state afterwards is the state before with at most \<open>current_step_score\<close>,
  \<open>current_iteration\<close> and \<open>model\<close> assigned. The configuration is never read from a
  checkpoint.
\<close>

theorem load_checkpoint_frame:
  "(case load_checkpoint L self dir w of
      (r, self', w') \<Rightarrow>
        current_config self' = current_config self \<and>
        x_train self' = x_train self \<and>
        y_train self' = y_train self \<and>
        self' = self\<lparr>current_step_score := current_step_score self',
                      current_iteration := current_iteration self',
                      model := model self'\<rparr>)"
  by (auto simp: load_checkpoint_def Let_def split: sum.splits option.splits)

theorem load_checkpoint_frame_witness:
  "(case save_checkpoint example_lib example_trainable ''/tmp/ckpt'' example_world of
      (r, saved, w) \<Rightarrow>
        (case load_checkpoint example_lib
                \<lparr>current_config = 7, x_train = [5], y_train = [6], model = [],
                 current_iteration = 0, current_step_score = None\<rparr> ''/tmp/ckpt'' w of
           (r', self', w') \<Rightarrow>
             r' = Inr () \<and> current_config self' = 7 \<and> x_train self' = [5] \<and>
             y_train self' = [6] \<and> current_iteration self' = 2 \<and>
             current_step_score self' = Some 4 \<and> model self' = [1, 2, 1, 2]))"
  using load_checkpoint_frame [where L = example_lib
      and self = "\<lparr>current_config = 7, x_train = [5], y_train = [6], model = [],
                 current_iteration = 0, current_step_score = None\<rparr>"
      and dir = "''/tmp/ckpt''"
      and w = "snd (snd (save_checkpoint example_lib example_trainable ''/tmp/ckpt''
                 example_world))"]
  by (simp add: save_checkpoint_def load_checkpoint_def Let_def write_file_def read_file_def
      record_call_def score_json_def os_path_join_def example_defs)

subsection \<open>One training step\<close>

text \<open>
  C6: every call of \<open>step\<close> adds exactly one to \<open>current_iteration\<close>, also when a library
  call raises. It fits the model once: without \<open>init_model\<close> when the new
  \<open>current_iteration\<close> is 1, with the model it had as \<open>init_model\<close> otherwise, and the
  fitted model is the trainable's model afterwards. The score is the cross-validation
  score of the fitted model. When \<open>step\<close> returns, the result is the dictionary with the
  one key \<open>r2_score\<close>, whose value is \<open>current_step_score\<close> after the call; it returns
  exactly when the fit and the cross-validation return, and otherwise the library's
  exception leaves it, with the attributes assigned so far in place. Nothing else of the
  trainable changes.
\<close>

theorem step_increments_fits_and_reports:
  "(case step L self w of
      (r, self', w') \<Rightarrow>
        current_iteration self' = current_iteration self + 1 \<and>
        filter is_fit (drop (length (trace w)) (trace w')) =
          [Model_fit (model self) (x_train self) (y_train self)
             (if current_iteration self' = 1 then None else Some (model self))] \<and>
        (case r of
           Inr results_dict \<Rightarrow>
             results_dict = [(''r2_score'', current_step_score self')] \<and>
             map fst results_dict = [''r2_score'']
         | Inl e \<Rightarrow> e = Library_raised) \<and>
        (\<not> isl r) =
          (\<exists>m sc. fit L (model self) (x_train self) (y_train self)
                    (if current_iteration self' = 1 then None else Some (model self)) = Some m \<and>
                  cross_val_score L m (x_train self) (y_train self) = Some sc) \<and>
        (case fit L (model self) (x_train self) (y_train self)
                (if current_iteration self + 1 = 1 then None else Some (model self)) of
           None \<Rightarrow>
             r = Inl Library_raised \<and>
             self' = self\<lparr>current_iteration := current_iteration self + 1\<rparr>
         | Some m \<Rightarrow>
             model self' = m \<and>
             (case cross_val_score L m (x_train self) (y_train self) of
                None \<Rightarrow>
                  r = Inl Library_raised \<and>
                  self' = self\<lparr>current_iteration := current_iteration self + 1, model := m\<rparr>
              | Some sc \<Rightarrow>
                  r = Inr [(''r2_score'', Some sc)] \<and>
                  self' = self\<lparr>current_iteration := current_iteration self + 1, model := m,
                               current_step_score := Some sc\<rparr>)))"
  by (auto simp: step_def model_fit_def record_call_def Let_def split: option.splits)

theorem step_increments_fits_and_reports_witness:
  "(case step example_lib example_trainable example_world of
      (r, self', w') \<Rightarrow>
        current_iteration self' = 3 \<and> r = Inr [(''r2_score'', Some 6)] \<and>
        current_step_score self' = Some 6 \<and>
        model self' = [1, 2, 1, 2, 1, 2] \<and>
        trace w' = [Model_fit [1, 2, 1, 2] [1, 2] [3, 4] (Some [1, 2, 1, 2]),
                    Cross_val_score [1, 2, 1, 2, 1, 2] [1, 2] [3, 4]])"
  using step_increments_fits_and_reports [where L = example_lib and self = example_trainable
      and w = example_world]
  by (simp add: step_def model_fit_def record_call_def Let_def example_defs)

section \<open>Properties of the script\<close>

lemmas cell_defs = cell_12_def cell_13_def cell_15_def cell_18_def cell_20_def cell_23_def
  cell_25_def cell_29_def cell_31_def cell_35_def cell_38_def cell_40_def cell_42_def cell_44_def
  cell_46_def cell_47_def cell_48_def cell_50_def call_lib_def class_statement_def getitem_def
  method_names_def TrainableForPBT_def

text \<open>What running the notebook does, action by action.\<close>

lemma notebook_actions:
  "notebook =
     [Import_module ''sys'',
       Shell ''{sys.executable} -m pip install ray==2.1.0'',
       Import_module ''json'', Import_module ''os'',
       Import_from ''joblib'' [''dump'', ''load''],
       Import_from ''lightgbm'' [''LGBMRegressor''],
       Import_from ''ray'' [''tune''],
       Import_from ''ray.air.config'' [''CheckpointConfig''],
       Import_from ''ray.air.config'' [''RunConfig''],
       Import_from ''ray.tune.schedulers'' [''PopulationBasedTraining''],
       Import_from ''ray.tune.tune_config'' [''TuneConfig''],
       Import_from ''ray.tune.tuner'' [''Tuner''],
       Import_from ''sklearn.datasets'' [''load_boston''],
       Import_from ''sklearn.model_selection'' [''cross_val_score''],
       Import_from ''sklearn.model_selection'' [''train_test_split''],
       Class_def ''TrainableForPBT'' [''tune.Trainable''] [''setup'', ''step''],
       Function_def ''setup'', Function_def ''step'',
       Function_def ''save_checkpoint'', Function_def ''load_checkpoint'',
       Function_def ''reset_config'',
       Class_def ''TrainableForPBT'' [''tune.Trainable'']
        [''setup'', ''step'', ''save_checkpoint'', ''load_checkpoint'',
         ''reset_config''],
       Call (PAttr (PName ''tune'') ''loguniform'')
        [PFloat ''1e-5'', PFloat ''1e-1''] [],
       Call (PAttr (PName ''tune'') ''randint'') [PInt 5, PInt 100] [],
       Call (PAttr (PName ''tune'') ''randint'') [PInt 1, PInt 9] [],
       Call (PName ''PopulationBasedTraining'') []
        [(''time_attr'', PStr ''training_iteration''),
         (''perturbation_interval'', PInt 4), (''burn_in_period'', PInt 10),
         (''hyperparam_mutations'',
          PDict
           [(''learning_rate'', PResult 22), (''num_leaves'', PResult 23),
            (''max_depth'', PResult 24)])],
       Call (PName ''TuneConfig'') []
        [(''metric'', PStr ''r2_score''), (''mode'', PStr ''max''),
         (''search_alg'', PNone), (''scheduler'', PResult 25),
         (''num_samples'', PInt 15), (''reuse_actors'', PBool True)],
       Call (PName ''CheckpointConfig'') []
        [(''checkpoint_score_attribute'', PStr ''r2_score''),
         (''checkpoint_score_order'', PStr ''max''),
         (''checkpoint_frequency'', PInt 4),
         (''checkpoint_at_end'', PBool True)],
       Call (PName ''RunConfig'') []
        [(''name'', PStr ''pbt_experiment''),
         (''local_dir'', PStr ''/Users/admin/Desktop/Dressler/Publications''),
         (''stop'', PDict [(''training_iteration'', PInt 30)]),
         (''checkpoint_config'', PResult 27)],
       Call (PName ''load_boston'') [] [(''return_X_y'', PBool True)],
       Call (PName ''train_test_split'')
        [PItem (PResult 29) (PInt 0), PItem (PResult 29) (PInt 1)]
        [(''test_size'', PFloat ''0.2''), (''random_state'', PInt 42)],
       Call (PAttr (PName ''tune'') ''with_parameters'')
        [PClass ''TrainableForPBT'' [''tune.Trainable'']
          [''setup'', ''step'', ''save_checkpoint'', ''load_checkpoint'',
           ''reset_config'']]
        [(''x_train'', PItem (PResult 30) (PInt 0)),
         (''y_train'', PItem (PResult 30) (PInt 2))],
       Call (PName ''Tuner'') [PResult 31]
        [(''param_space'',
          PDict
           [(''learning_rate'', PResult 22), (''num_leaves'', PResult 23),
            (''max_depth'', PResult 24)]),
         (''tune_config'', PResult 26), (''run_config'', PResult 28)],
       Call (PAttr (PResult 32) ''fit'') [] [],
       Call (PAttr (PResult 33) ''get_best_result'') [] [],
       Call (PAttr (PAttr (PResult 34) ''checkpoint'') ''as_directory'') [] [],
       Print
        (PFormat
          [PStr ''BEST TRIAL ID: '',
           PAttr
            (PAttr (PAttr (PResult 33) ''_experiment_analysis'') ''best_trial'')
            ''trial_id'']),
       Print
        (PFormat
          [PStr ''BEST RESULT SCORE: '',
           PItem (PAttr (PResult 34) ''metrics'') (PStr ''r2_score'')]),
       Print
        (PFormat
          [PStr ''BEST CHECKPOINT DIRECTORY: '',
           PAttr (PResult 34) ''checkpoint''])]"
  by (simp add: notebook_def cell_defs Let_def)

lemma notebook_before_fit: "before_fit notebook = take 33 notebook"
  unfolding notebook_actions before_fit_def
  by (simp add: is_tuner_fit_def calls_def)

lemma notebook_after_fit: "after_fit notebook = drop 34 notebook"
  unfolding notebook_actions after_fit_def
  by (simp add: is_tuner_fit_def calls_def)

lemma notebook_fit_count: "length (filter (is_tuner_fit notebook) notebook) = 1"
  unfolding notebook_actions
  by (simp add: is_tuner_fit_def calls_def)

lemma notebook_before:
  "list_ex (defines_class ''TrainableForPBT'') (before_fit notebook)"
  "list_ex (calls (PAttr (PName ''tune'') ''loguniform'')) (before_fit notebook)"
  "list_ex (calls (PAttr (PName ''tune'') ''randint'')) (before_fit notebook)"
  "list_ex (calls (PName ''PopulationBasedTraining'')) (before_fit notebook)"
  "list_ex (calls (PName ''TuneConfig'')) (before_fit notebook)"
  "list_ex (calls (PName ''CheckpointConfig'')) (before_fit notebook)"
  "list_ex (calls (PName ''RunConfig'')) (before_fit notebook)"
  "list_ex (calls (PAttr (PName ''tune'') ''with_parameters'')) (before_fit notebook)"
  "list_ex (calls (PName ''Tuner'')) (before_fit notebook)"
  "\<not> list_ex is_print (before_fit notebook)"
  unfolding notebook_before_fit unfolding notebook_actions
  by (simp_all add: calls_def defines_class_def is_print_def)

lemma notebook_after:
  "length (filter is_print (after_fit notebook)) = 3"
  "list_ex is_print (after_fit notebook)"
  "\<not> list_ex (is_tuner_fit notebook) (after_fit notebook)"
  unfolding notebook_after_fit unfolding notebook_actions
  by (simp_all add: is_print_def is_tuner_fit_def calls_def)

lemma notebook_length: "length notebook = 39"
  unfolding notebook_actions by simp

lemma notebook_preamble:
  "\<not> list_ex is_call (take 21 notebook)"
  "\<not> list_ex is_print (take 21 notebook)"
  unfolding notebook_actions
  by (simp_all add: is_call_def is_print_def)

lemma notebook_from_class_statement:
  "(let cls = PClass ''TrainableForPBT'' [''tune.Trainable''] (method_names TrainableForPBT);
        learning_rate = PResult 22;
        num_leaves = PResult 23;
        max_depth = PResult 24;
        params = PDict [(''learning_rate'', learning_rate), (''num_leaves'', num_leaves),
                        (''max_depth'', max_depth)];
        pbt = PResult 25;
        tune_config = PResult 26;
        checkpoint_config = PResult 27;
        run_config = PResult 28;
        boston = PResult 29;
        split = PResult 30;
        trainable_with_parameters = PResult 31;
        tuner = PResult 32;
        analysis = PResult 33;
        best_result = PResult 34
    in drop 21 notebook =
         [Class_def ''TrainableForPBT'' [''tune.Trainable''] (method_names TrainableForPBT),
          Call (PAttr (PName ''tune'') ''loguniform'') [PFloat ''1e-5'', PFloat ''1e-1''] [],
          Call (PAttr (PName ''tune'') ''randint'') [PInt 5, PInt 100] [],
          Call (PAttr (PName ''tune'') ''randint'') [PInt 1, PInt 9] [],
          Call (PName ''PopulationBasedTraining'') []
            [(''time_attr'', PStr ''training_iteration''),
             (''perturbation_interval'', PInt 4),
             (''burn_in_period'', PInt 10),
             (''hyperparam_mutations'', params)],
          Call (PName ''TuneConfig'') []
            [(''metric'', PStr ''r2_score''),
             (''mode'', PStr ''max''),
             (''search_alg'', PNone),
             (''scheduler'', pbt),
             (''num_samples'', PInt 15),
             (''reuse_actors'', PBool True)],
          Call (PName ''CheckpointConfig'') []
            [(''checkpoint_score_attribute'', PStr ''r2_score''),
             (''checkpoint_score_order'', PStr ''max''),
             (''checkpoint_frequency'', PInt 4),
             (''checkpoint_at_end'', PBool True)],
          Call (PName ''RunConfig'') []
            [(''name'', PStr ''pbt_experiment''),
             (''local_dir'', PStr ''/Users/admin/Desktop/Dressler/Publications''),
             (''stop'', PDict [(''training_iteration'', PInt 30)]),
             (''checkpoint_config'', checkpoint_config)],
          Call (PName ''load_boston'') [] [(''return_X_y'', PBool True)],
          Call (PName ''train_test_split'') [PItem boston (PInt 0), PItem boston (PInt 1)]
            [(''test_size'', PFloat ''0.2''), (''random_state'', PInt 42)],
          Call (PAttr (PName ''tune'') ''with_parameters'') [cls]
            [(''x_train'', PItem split (PInt 0)), (''y_train'', PItem split (PInt 2))],
          Call (PName ''Tuner'') [trainable_with_parameters]
            [(''param_space'', params),
             (''tune_config'', tune_config),
             (''run_config'', run_config)],
          Call (PAttr tuner ''fit'') [] [],
          Call (PAttr analysis ''get_best_result'') [] [],
          Call (PAttr (PAttr best_result ''checkpoint'') ''as_directory'') [] [],
          Print (PFormat
            [PStr ''BEST TRIAL ID: '',
             PAttr (PAttr (PAttr analysis ''_experiment_analysis'') ''best_trial'')
               ''trial_id'']),
          Print (PFormat
            [PStr ''BEST RESULT SCORE: '',
             PItem (PAttr best_result ''metrics'') (PStr ''r2_score'')]),
          Print (PFormat
            [PStr ''BEST CHECKPOINT DIRECTORY: '', PAttr best_result ''checkpoint''])])"
  unfolding notebook_actions
  by (simp add: Let_def method_names_def TrainableForPBT_def)

text \<open>
  C1: the script calls \<open>fit\<close> on a \<open>Tuner\<close> exactly once. Before that call it has defined
  the class \<open>TrainableForPBT\<close> and bound it to its data with \<open>tune.with_parameters\<close>, built
  the search space (\<open>tune.loguniform\<close>, \<open>tune.randint\<close>), the scheduler
  (\<open>PopulationBasedTraining\<close>), the configuration objects (\<open>TuneConfig\<close>,
  \<open>CheckpointConfig\<close>, \<open>RunConfig\<close>) and the \<open>Tuner\<close>, and has printed nothing. After it,
  it prints three times and calls \<open>fit\<close> on no \<open>Tuner\<close> again.

  The last conjunct says which objects these are. The log has 39 actions; the first 21
  (imports, the pip command, the first version of the class, the five functions at module
  level) call nothing and print nothing, and the rest are listed. \<open>PResult n\<close> is the
  object that action number \<open>n\<close> returned, counting from 0, so the list starts at
  action 21 and the names bound in the \<open>let\<close> are the notebook's variables. It reads:
  the class passed to \<open>tune.with_parameters\<close> is the class of five callbacks of cell 31,
  with the training split of the Boston data; the \<open>Tuner\<close> is built from that, from the
  three search-space objects, and from the \<open>TuneConfig\<close> (whose scheduler is the
  \<open>PopulationBasedTraining\<close> object, mutating the same three search-space objects) and
  the \<open>RunConfig\<close> (holding the \<open>CheckpointConfig\<close>); \<open>fit\<close> is called on that \<open>Tuner\<close>;
  and what is printed is the best trial's id, and the \<open>r2_score\<close> metric and the checkpoint
  of \<open>get_best_result()\<close>, all read from what \<open>fit\<close> returned.
\<close>

theorem notebook_fits_once_then_prints:
  "length (filter (is_tuner_fit notebook) notebook) = 1 \<and>
   list_ex (defines_class ''TrainableForPBT'') (before_fit notebook) \<and>
   list_ex (calls (PAttr (PName ''tune'') ''with_parameters'')) (before_fit notebook) \<and>
   list_ex (calls (PAttr (PName ''tune'') ''loguniform'')) (before_fit notebook) \<and>
   list_ex (calls (PAttr (PName ''tune'') ''randint'')) (before_fit notebook) \<and>
   list_ex (calls (PName ''PopulationBasedTraining'')) (before_fit notebook) \<and>
   list_ex (calls (PName ''TuneConfig'')) (before_fit notebook) \<and>
   list_ex (calls (PName ''CheckpointConfig'')) (before_fit notebook) \<and>
   list_ex (calls (PName ''RunConfig'')) (before_fit notebook) \<and>
   list_ex (calls (PName ''Tuner'')) (before_fit notebook) \<and>
   \<not> list_ex is_print (before_fit notebook) \<and>
   list_ex is_print (after_fit notebook) \<and>
   length (filter is_print (after_fit notebook)) = 3 \<and>
   \<not> list_ex (is_tuner_fit notebook) (after_fit notebook) \<and>
   length notebook = 39 \<and>
   \<not> list_ex is_call (take 21 notebook) \<and>
   \<not> list_ex is_print (take 21 notebook) \<and>
   (let cls = PClass ''TrainableForPBT'' [''tune.Trainable''] (method_names TrainableForPBT);
        learning_rate = PResult 22;
        num_leaves = PResult 23;
        max_depth = PResult 24;
        params = PDict [(''learning_rate'', learning_rate), (''num_leaves'', num_leaves),
                        (''max_depth'', max_depth)];
        pbt = PResult 25;
        tune_config = PResult 26;
        checkpoint_config = PResult 27;
        run_config = PResult 28;
        boston = PResult 29;
        split = PResult 30;
        trainable_with_parameters = PResult 31;
        tuner = PResult 32;
        analysis = PResult 33;
        best_result = PResult 34
    in drop 21 notebook =
         [Class_def ''TrainableForPBT'' [''tune.Trainable''] (method_names TrainableForPBT),
          Call (PAttr (PName ''tune'') ''loguniform'') [PFloat ''1e-5'', PFloat ''1e-1''] [],
          Call (PAttr (PName ''tune'') ''randint'') [PInt 5, PInt 100] [],
          Call (PAttr (PName ''tune'') ''randint'') [PInt 1, PInt 9] [],
          Call (PName ''PopulationBasedTraining'') []
            [(''time_attr'', PStr ''training_iteration''),
             (''perturbation_interval'', PInt 4),
             (''burn_in_period'', PInt 10),
             (''hyperparam_mutations'', params)],
          Call (PName ''TuneConfig'') []
            [(''metric'', PStr ''r2_score''),
             (''mode'', PStr ''max''),
             (''search_alg'', PNone),
             (''scheduler'', pbt),
             (''num_samples'', PInt 15),
             (''reuse_actors'', PBool True)],
          Call (PName ''CheckpointConfig'') []
            [(''checkpoint_score_attribute'', PStr ''r2_score''),
             (''checkpoint_score_order'', PStr ''max''),
             (''checkpoint_frequency'', PInt 4),
             (''checkpoint_at_end'', PBool True)],
          Call (PName ''RunConfig'') []
            [(''name'', PStr ''pbt_experiment''),
             (''local_dir'', PStr ''/Users/admin/Desktop/Dressler/Publications''),
             (''stop'', PDict [(''training_iteration'', PInt 30)]),
             (''checkpoint_config'', checkpoint_config)],
          Call (PName ''load_boston'') [] [(''return_X_y'', PBool True)],
          Call (PName ''train_test_split'') [PItem boston (PInt 0), PItem boston (PInt 1)]
            [(''test_size'', PFloat ''0.2''), (''random_state'', PInt 42)],
          Call (PAttr (PName ''tune'') ''with_parameters'') [cls]
            [(''x_train'', PItem split (PInt 0)), (''y_train'', PItem split (PInt 2))],
          Call (PName ''Tuner'') [trainable_with_parameters]
            [(''param_space'', params),
             (''tune_config'', tune_config),
             (''run_config'', run_config)],
          Call (PAttr tuner ''fit'') [] [],
          Call (PAttr analysis ''get_best_result'') [] [],
          Call (PAttr (PAttr best_result ''checkpoint'') ''as_directory'') [] [],
          Print (PFormat
            [PStr ''BEST TRIAL ID: '',
             PAttr (PAttr (PAttr analysis ''_experiment_analysis'') ''best_trial'')
               ''trial_id'']),
          Print (PFormat
            [PStr ''BEST RESULT SCORE: '',
             PItem (PAttr best_result ''metrics'') (PStr ''r2_score'')]),
          Print (PFormat
            [PStr ''BEST CHECKPOINT DIRECTORY: '', PAttr best_result ''checkpoint''])])"
  by (intro conjI notebook_fit_count notebook_before notebook_after notebook_length
      notebook_preamble notebook_from_class_statement)

end
